theory Spec2Isabelle
  imports Main "HOL-Library.Char_ord" "HOL-Library.List_Lexorder"
begin

section \<open>The coverage report builder of \<^verbatim>\<open>savitri_app/analyze_coverage.py\<close>\<close>

text \<open>
  The program is one function, \<^verbatim>\<open>analyze_lcov_file\<close>, which reads an LCOV file line by
  line into a dictionary of per-file counters, sums the counters and prints a report.
  It is embedded here as a pure function from the file (absent, unreadable, or its
  lines) to what the run prints and the exception it ends with, if any.

  Text: a Python \<^verbatim>\<open>str\<close> is modelled as a \<^typ>\<open>string\<close> whose characters are the
  code points below 256. The built-ins the program calls (\<^verbatim>\<open>str.strip\<close>,
  \<^verbatim>\<open>str.startswith\<close>, slicing, \<^verbatim>\<open>str.split\<close>, \<^verbatim>\<open>int\<close>, \<^verbatim>\<open>sorted\<close>, true
  division, float multiplication and the \<^verbatim>\<open>.1f\<close> format) are modelled as CPython 3
  computes them on such text.
\<close>

subsection \<open>Exceptions\<close>

text \<open>
  The program has no \<^verbatim>\<open>try\<close> statement: an exception raised anywhere ends the run.
  \<open>KeyError\<close> carries the key that was looked up (\<open>None\<close> for Python's \<^verbatim>\<open>None\<close>),
  \<open>ValueError\<close> the literal that \<^verbatim>\<open>int\<close> rejected, the two file errors the file name.
\<close>

datatype py_error =
    FileNotFoundError string
  | PermissionError string
  | KeyError "string option"
  | ValueError string
  | OverflowError
  | ZeroDivisionError

subsection \<open>String built-ins\<close>

text \<open>\<^verbatim>\<open>str.isspace\<close> on one character: the code points 9-13, 28-32, 0x85 and 0xA0.\<close>

definition isspace :: "char \<Rightarrow> bool" where
  "isspace c = (let n = (of_char c :: nat) in
     (9 \<le> n \<and> n \<le> 13) \<or> (28 \<le> n \<and> n \<le> 32) \<or> n = 133 \<or> n = 160)"

text \<open>\<^verbatim>\<open>s.strip()\<close>: drops the whitespace at both ends.\<close>

definition strip :: "string \<Rightarrow> string" where
  "strip s = rev (dropWhile isspace (rev (dropWhile isspace s)))"

text \<open>\<^verbatim>\<open>s.startswith(p)\<close>.\<close>

definition startswith :: "string \<Rightarrow> string \<Rightarrow> bool" where
  "startswith s p = (take (length p) s = p)"

text \<open>\<^verbatim>\<open>s.split(',')\<close>: the fields between the commas; always at least one field.\<close>

fun split_comma :: "string \<Rightarrow> string list" where
  "split_comma [] = [[]]"
| "split_comma (c # cs) =
     (if c = CHR '','' then [] # split_comma cs
      else (case split_comma cs of
              [] \<Rightarrow> [[c]]
            | p # ps \<Rightarrow> (c # p) # ps))"

subsection \<open>The built-in \<^verbatim>\<open>int\<close> on a string\<close>

text \<open>
  \<^verbatim>\<open>int(s)\<close> in base 10: whitespace at both ends is dropped (for \<^verbatim>\<open>int\<close> that is the
  code points 9-13, 32, 0x85 and 0xA0, not 28-31), then comes an optional sign, then one
  or more digits, where a single underscore may stand between two digits. Anything else
  raises \<open>ValueError\<close>, modelled as \<open>None\<close>. CPython from 3.11 on also rejects a literal
  of more than 4300 digits; that limit can be configured and is not modelled.
\<close>

definition int_space :: "char \<Rightarrow> bool" where
  "int_space c = (let n = (of_char c :: nat) in
     (9 \<le> n \<and> n \<le> 13) \<or> n = 32 \<or> n = 133 \<or> n = 160)"

definition is_digit :: "char \<Rightarrow> bool" where
  "is_digit c = (let n = (of_char c :: nat) in 48 \<le> n \<and> n \<le> 57)"

definition digit_val :: "char \<Rightarrow> nat" where
  "digit_val c = of_char c - 48"

fun digits_acc :: "nat \<Rightarrow> string \<Rightarrow> nat option" where
  "digits_acc a [] = Some a"
| "digits_acc a [c] = (if is_digit c then Some (10 * a + digit_val c) else None)"
| "digits_acc a (c # d # cs) =
     (if is_digit c then digits_acc (10 * a + digit_val c) (d # cs)
      else if c = CHR ''_'' \<and> is_digit d then digits_acc (10 * a + digit_val d) cs
      else None)"

definition digits_value :: "string \<Rightarrow> nat option" where
  "digits_value s =
     (case s of
        [] \<Rightarrow> None
      | c # cs \<Rightarrow> if is_digit c then digits_acc (digit_val c) cs else None)"

definition py_int :: "string \<Rightarrow> int option" where
  "py_int s =
     (let t = rev (dropWhile int_space (rev (dropWhile int_space s)))
      in case t of
           [] \<Rightarrow> None
         | c # r \<Rightarrow>
             if c = CHR ''-'' then map_option (\<lambda>n. - int n) (digits_value r)
             else if c = CHR ''+'' then map_option int (digits_value r)
             else map_option int (digits_value t))"

subsection \<open>The dictionary \<^verbatim>\<open>files_coverage\<close>\<close>

text \<open>
  The values are the two-key dictionaries \<^verbatim>\<open>{'lines_found': _, 'lines_hit': _}\<close>, a
  record here; Python's integers are unbounded, \<^typ>\<open>int\<close> here. The outer dictionary
  keeps its keys in insertion order, so it is an association list with distinct keys:
  assigning to a key that is present replaces the value where it stands, assigning to a
  new key appends it.
\<close>

record file_cov =
  lines_found :: int
  lines_hit :: int

type_synonym files_cov = "(string \<times> file_cov) list"

fun dict_get :: "files_cov \<Rightarrow> string \<Rightarrow> file_cov option" where
  "dict_get [] k = None"
| "dict_get ((k', v) # d) k = (if k' = k then Some v else dict_get d k)"

fun dict_set :: "files_cov \<Rightarrow> string \<Rightarrow> file_cov \<Rightarrow> files_cov" where
  "dict_set [] k v = [(k, v)]"
| "dict_set ((k', v') # d) k v = (if k' = k then (k, v) # d else (k', v') # dict_set d k v)"

subsection \<open>The parsing loop (source lines 13 to 36)\<close>

record parse_state =
  files_coverage :: files_cov
  current_file :: "string option"

definition initial_state :: parse_state where
  "initial_state = \<lparr>files_coverage = [], current_file = None\<rparr>"

text \<open>
  \<^verbatim>\<open>files_coverage[current_file][...] = ...\<close>: the outer dictionary is read at
  \<^verbatim>\<open>current_file\<close>, which is \<^verbatim>\<open>None\<close> until the first \<^verbatim>\<open>SF:\<close> line, and the inner
  dictionary found there is changed in place. A key that is absent raises \<open>KeyError\<close>.
\<close>

definition update_current ::
  "parse_state \<Rightarrow> (file_cov \<Rightarrow> file_cov) \<Rightarrow> py_error + parse_state" where
  "update_current st f =
     (case current_file st of
        None \<Rightarrow> Inl (KeyError None)
      | Some p \<Rightarrow>
          (case dict_get (files_coverage st) p of
             None \<Rightarrow> Inl (KeyError (Some p))
           | Some d \<Rightarrow> Inr (st\<lparr>files_coverage := dict_set (files_coverage st) p (f d)\<rparr>)))"

text \<open>
  One iteration of the loop. In the \<^verbatim>\<open>DA:\<close> branch \<^verbatim>\<open>int(parts[1])\<close> is evaluated
  before the dictionary is read; in the \<^verbatim>\<open>LF:\<close> and \<^verbatim>\<open>LH:\<close> branches the right-hand
  side \<^verbatim>\<open>int(line[3:])\<close> of the assignment is evaluated before its target.
\<close>

definition process_line :: "parse_state \<Rightarrow> string \<Rightarrow> py_error + parse_state" where
  "process_line st raw =
     (let line = strip raw in
      if startswith line ''SF:'' then
        Inr \<lparr>files_coverage =
               dict_set (files_coverage st) (drop 3 line) \<lparr>lines_found = 0, lines_hit = 0\<rparr>,
             current_file = Some (drop 3 line)\<rparr>
      else if startswith line ''DA:'' then
        (let parts = split_comma (drop 3 line) in
         if length parts \<ge> 2 then
           (case py_int (parts ! 1) of
              None \<Rightarrow> Inl (ValueError (parts ! 1))
            | Some hit_count \<Rightarrow>
                update_current st
                  (\<lambda>d. let d1 = d\<lparr>lines_found := lines_found d + 1\<rparr>
                       in if hit_count > 0 then d1\<lparr>lines_hit := lines_hit d1 + 1\<rparr> else d1))
         else Inr st)
      else if startswith line ''LF:'' then
        (case py_int (drop 3 line) of
           None \<Rightarrow> Inl (ValueError (drop 3 line))
         | Some n \<Rightarrow> update_current st (\<lambda>d. d\<lparr>lines_found := n\<rparr>))
      else if startswith line ''LH:'' then
        (case py_int (drop 3 line) of
           None \<Rightarrow> Inl (ValueError (drop 3 line))
         | Some n \<Rightarrow> update_current st (\<lambda>d. d\<lparr>lines_hit := n\<rparr>))
      else Inr st)"

text \<open>The \<^verbatim>\<open>for\<close> loop over the lines of the file; the first exception ends it.\<close>

fun parse_lines :: "parse_state \<Rightarrow> string list \<Rightarrow> py_error + parse_state" where
  "parse_lines st [] = Inr st"
| "parse_lines st (l # ls) =
     (case process_line st l of
        Inl e \<Rightarrow> Inl e
      | Inr st' \<Rightarrow> parse_lines st' ls)"

subsection \<open>Floating point: \<^verbatim>\<open>(hit / found) * 100\<close>\<close>

text \<open>
  A Python float is an IEEE 754 double, and both operations round the exact result to
  the nearest double, ties to the even mantissa. The floats that can arise here are the
  finite ones, \<open>Finite m e\<close> standing for \<open>m * 2 ^ e\<close> (positive zero is \<open>Finite 0 0\<close>),
  negative zero and the two infinities.
\<close>

datatype pyfloat = Finite int int | NegZero | PosInf | NegInf

text \<open>\<^verbatim>\<open>int.bit_length\<close> of a natural number.\<close>

fun bit_length :: "nat \<Rightarrow> nat" where
  "bit_length n = (if n = 0 then 0 else Suc (bit_length (n div 2)))"

declare bit_length.simps [simp del]

text \<open>The integer nearest to \<open>n / d\<close> for \<open>d > 0\<close>, a tie going to the even one.\<close>

definition round_half_even :: "int \<Rightarrow> int \<Rightarrow> int" where
  "round_half_even n d =
     (let q = n div d; r = n mod d
      in if 2 * r < d then q
         else if 2 * r > d then q + 1
         else if even q then q else q + 1)"

text \<open>The exponent \<open>e\<close> with \<open>2 ^ e \<le> n / d < 2 ^ (e + 1)\<close>, for positive \<open>n\<close> and \<open>d\<close>.\<close>

definition floor_log2 :: "int \<Rightarrow> int \<Rightarrow> int" where
  "floor_log2 n d =
     (let t = int (bit_length (nat n)) - int (bit_length (nat d))
      in if (if t \<ge> 0 then d * 2 ^ nat t \<le> n else d \<le> n * 2 ^ nat (- t)) then t else t - 1)"

text \<open>
  The double nearest to the positive fraction \<open>n / d\<close>: a 53-bit mantissa \<open>m\<close> at the
  exponent of the fraction, or at the fixed exponent of the subnormal numbers when the
  fraction is below \<open>2 ^ -1022\<close>. The result is \<open>m * 2 ^ k\<close>; it is zero when the
  mantissa rounds to zero, and overflows when it reaches \<open>2 ^ 1024\<close>.
\<close>

datatype rounded = Zero | Normal int int | Overflow

definition nearest_double :: "int \<Rightarrow> int \<Rightarrow> rounded" where
  "nearest_double n d =
     (let k = max (floor_log2 n d) (- 1022) - 52;
          m = (if k \<ge> 0 then round_half_even n (d * 2 ^ nat k)
               else round_half_even (n * 2 ^ nat (- k)) d)
      in if m = 0 then Zero
         else if int (bit_length (nat m)) + k > 1024 then Overflow
         else Normal m k)"

text \<open>
  \<^verbatim>\<open>a / b\<close> on two integers: the correctly rounded quotient. A zero divisor raises
  \<open>ZeroDivisionError\<close>, a quotient too large for a double raises \<open>OverflowError\<close>, one
  too small becomes a zero with the sign of the quotient.
\<close>

definition py_truediv :: "int \<Rightarrow> int \<Rightarrow> py_error + pyfloat" where
  "py_truediv a b =
     (if b = 0 then Inl ZeroDivisionError
      else
        (let neg = ((a < 0) \<noteq> (b < 0)) in
         if a = 0 then Inr (if neg then NegZero else Finite 0 0)
         else
           (case nearest_double \<bar>a\<bar> \<bar>b\<bar> of
              Zero \<Rightarrow> Inr (if neg then NegZero else Finite 0 0)
            | Normal m k \<Rightarrow> Inr (Finite (if neg then - m else m) k)
            | Overflow \<Rightarrow> Inl OverflowError)))"

text \<open>\<^verbatim>\<open>x * 100\<close> on a float: never raises, a product too large becomes an infinity.\<close>

definition times_100 :: "pyfloat \<Rightarrow> pyfloat" where
  "times_100 x =
     (case x of
        Finite m k \<Rightarrow>
          if m = 0 then Finite 0 0
          else
            (case (if k \<ge> 0 then nearest_double (\<bar>m\<bar> * 100 * 2 ^ nat k) 1
                   else nearest_double (\<bar>m\<bar> * 100) (2 ^ nat (- k))) of
               Zero \<Rightarrow> if m < 0 then NegZero else Finite 0 0
             | Normal m' k' \<Rightarrow> Finite (if m < 0 then - m' else m') k'
             | Overflow \<Rightarrow> if m < 0 then NegInf else PosInf)
      | NegZero \<Rightarrow> NegZero
      | PosInf \<Rightarrow> PosInf
      | NegInf \<Rightarrow> NegInf)"

text \<open>The expression \<^verbatim>\<open>(hit / found) * 100\<close> of source lines 50 and 57.\<close>

definition coverage_pct :: "int \<Rightarrow> int \<Rightarrow> py_error + pyfloat" where
  "coverage_pct hit found =
     (case py_truediv hit found of
        Inl e \<Rightarrow> Inl e
      | Inr x \<Rightarrow> Inr (times_100 x))"

subsection \<open>Formatting\<close>

text \<open>The decimal digits of a natural number, and \<^verbatim>\<open>str\<close> of an integer.\<close>

definition digit_char :: "nat \<Rightarrow> char" where
  "digit_char n = ''0123456789'' ! n"

fun show_nat :: "nat \<Rightarrow> string" where
  "show_nat n = (if n < 10 then [digit_char n] else show_nat (n div 10) @ [digit_char (n mod 10)])"

declare show_nat.simps [simp del]

definition show_int :: "int \<Rightarrow> string" where
  "show_int i = (if i < 0 then CHR ''-'' # show_nat (nat (- i)) else show_nat (nat i))"

text \<open>
  The format \<^verbatim>\<open>.1f\<close>: the exact value of the double, rounded to one decimal place
  with ties to even; the sign is kept when the digits round to zero. \<open>r\<close> is the number
  of tenths.
\<close>

definition format_1f :: "pyfloat \<Rightarrow> string" where
  "format_1f x =
     (case x of
        Finite m k \<Rightarrow>
          (let r = nat (if k \<ge> 0 then \<bar>m\<bar> * 10 * 2 ^ nat k
                        else round_half_even (\<bar>m\<bar> * 10) (2 ^ nat (- k)))
           in (if m < 0 then ''-'' else []) @ show_nat (r div 10) @ ''.'' @ show_nat (r mod 10))
      | NegZero \<Rightarrow> ''-0.0''
      | PosInf \<Rightarrow> ''inf''
      | NegInf \<Rightarrow> ''-inf'')"

subsection \<open>Totals and report (source lines 39 to 60)\<close>

definition total_lines_found :: "files_cov \<Rightarrow> int" where
  "total_lines_found fc = sum_list (map (\<lambda>(p, d). lines_found d) fc)"

definition total_lines_hit :: "files_cov \<Rightarrow> int" where
  "total_lines_hit fc = sum_list (map (\<lambda>(p, d). lines_hit d) fc)"

text \<open>
  What a run leaves behind: the lines printed to standard output, one per \<^verbatim>\<open>print\<close>
  call, and the exception that ended it, if one did.
\<close>

record outcome =
  stdout :: "string list"
  raised :: "py_error option"

text \<open>The second line printed for a file, with its percentage already computed.\<close>

definition lines_line :: "file_cov \<Rightarrow> pyfloat \<Rightarrow> string" where
  "lines_line dat coverage =
     ''  Lines: '' @ show_int (lines_hit dat) @ ''/'' @ show_int (lines_found dat) @
     '' ('' @ format_1f coverage @ ''%)''"

text \<open>
  The loop of source lines 47 to 52 over the sorted keys, \<open>out\<close> being what has been
  printed so far. The percentage is computed before the path is printed.
\<close>

fun print_files :: "files_cov \<Rightarrow> string list \<Rightarrow> string list \<Rightarrow> outcome" where
  "print_files fc [] out = \<lparr>stdout = out, raised = None\<rparr>"
| "print_files fc (file_path # rest) out =
     (case dict_get fc file_path of
        None \<Rightarrow> \<lparr>stdout = out, raised = Some (KeyError (Some file_path))\<rparr>
      | Some dat \<Rightarrow>
          if lines_found dat > 0 then
            (case coverage_pct (lines_hit dat) (lines_found dat) of
               Inl e \<Rightarrow> \<lparr>stdout = out, raised = Some e\<rparr>
             | Inr coverage \<Rightarrow>
                 print_files fc rest (out @ [file_path, lines_line dat coverage]))
          else print_files fc rest out)"

definition separator :: string where
  "separator = replicate 80 (CHR ''='')"

definition total_line :: "int \<Rightarrow> int \<Rightarrow> pyfloat \<Rightarrow> string" where
  "total_line hit found total_coverage =
     ''Total Coverage: '' @ show_int hit @ ''/'' @ show_int found @
     '' lines ('' @ format_1f total_coverage @ ''%)''"

text \<open>Source lines 39 to 60: the totals, then everything that is printed.\<close>

definition report :: "files_cov \<Rightarrow> outcome" where
  "report fc =
     (let found = total_lines_found fc;
          hit = total_lines_hit fc;
          files = print_files fc (sort (map fst fc)) [''Test Coverage Report'', separator]
      in case raised files of
           Some e \<Rightarrow> files
         | None \<Rightarrow>
             (let out = stdout files @ [separator] in
              if found > 0 then
                (case coverage_pct hit found of
                   Inl e \<Rightarrow> \<lparr>stdout = out, raised = Some e\<rparr>
                 | Inr total_coverage \<Rightarrow>
                     \<lparr>stdout = out @ [total_line hit found total_coverage], raised = None\<rparr>)
              else \<lparr>stdout = out @ [''No coverage data found''], raised = None\<rparr>))"

subsection \<open>The whole run\<close>

text \<open>
  The file named by \<^verbatim>\<open>filename\<close> as \<^verbatim>\<open>open\<close> finds it: absent, present but not
  readable, or readable, in which case iterating over it yields its lines.
\<close>

datatype lcov_file = Absent | Unreadable | Contents "string list"

definition open_file :: "string \<Rightarrow> lcov_file \<Rightarrow> py_error + string list" where
  "open_file filename f =
     (case f of
        Absent \<Rightarrow> Inl (FileNotFoundError filename)
      | Unreadable \<Rightarrow> Inl (PermissionError filename)
      | Contents ls \<Rightarrow> Inr ls)"

text \<open>
  The function \<^verbatim>\<open>analyze_lcov_file(filename)\<close>, given what is at \<^verbatim>\<open>filename\<close>.
  Nothing is printed before the loop over the lines has ended.
\<close>

definition analyze_lcov_file :: "string \<Rightarrow> lcov_file \<Rightarrow> outcome" where
  "analyze_lcov_file filename f =
     (case open_file filename f of
        Inl e \<Rightarrow> \<lparr>stdout = [], raised = Some e\<rparr>
      | Inr ls \<Rightarrow>
          (case parse_lines initial_state ls of
             Inl e \<Rightarrow> \<lparr>stdout = [], raised = Some e\<rparr>
           | Inr st \<Rightarrow> report (files_coverage st)))"

text \<open>Source lines 62 and 63: the script analyses the fixed path.\<close>

definition main :: "lcov_file \<Rightarrow> outcome" where
  "main f = analyze_lcov_file ''coverage/lcov.info'' f"

text \<open>
  The interpreter ends a run that raised no exception with status 0, and one that an
  uncaught exception ended with status 1, after printing the traceback to standard error.
\<close>

definition exit_status :: "outcome \<Rightarrow> nat" where
  "exit_status r = (case raised r of None \<Rightarrow> 0 | Some e \<Rightarrow> 1)"

subsection \<open>Notions used to state the properties\<close>

text \<open>A file is listed when the test of source line 49 holds for its entry.\<close>

definition listed :: "files_cov \<Rightarrow> string \<Rightarrow> bool" where
  "listed fc p = (case dict_get fc p of None \<Rightarrow> False | Some dat \<Rightarrow> lines_found dat > 0)"

text \<open>
  The two lines that source lines 51 and 52 print for a file: its path, then its counts
  and percentage.
\<close>

definition file_block :: "files_cov \<Rightarrow> string \<Rightarrow> string list" where
  "file_block fc p =
     (case dict_get fc p of
        None \<Rightarrow> []
      | Some dat \<Rightarrow>
          (case coverage_pct (lines_hit dat) (lines_found dat) of
             Inl e \<Rightarrow> []
           | Inr coverage \<Rightarrow> [p, lines_line dat coverage]))"

text \<open>The last line of a report, source lines 56 to 60.\<close>

definition closing_line :: "files_cov \<Rightarrow> string" where
  "closing_line fc =
     (if total_lines_found fc > 0 then
        (case coverage_pct (total_lines_hit fc) (total_lines_found fc) of
           Inl e \<Rightarrow> []
         | Inr total_coverage \<Rightarrow>
             total_line (total_lines_hit fc) (total_lines_found fc) total_coverage)
      else ''No coverage data found'')"

text \<open>
  A \<^verbatim>\<open>DA:\<close> line that passes the test of source line 24, and one whose hit count is
  positive as well (source line 27).
\<close>

definition counted_da :: "string \<Rightarrow> bool" where
  "counted_da raw =
     (startswith (strip raw) ''DA:'' \<and> length (split_comma (drop 3 (strip raw))) \<ge> 2)"

definition hit_da :: "string \<Rightarrow> bool" where
  "hit_da raw =
     (counted_da raw \<and>
      (case py_int (split_comma (drop 3 (strip raw)) ! 1) of
         None \<Rightarrow> False
       | Some hit_count \<Rightarrow> hit_count > 0))"

section \<open>Properties\<close>

subsection \<open>Evaluating the model on concrete input\<close>

text \<open>The defining equations that a concrete run unfolds, grouped by stage.\<close>

lemmas parse_eval = initial_state_def process_line_def strip_def isspace_def startswith_def
  update_current_def py_int_def int_space_def digits_value_def is_digit_def digit_val_def

lemmas float_eval = coverage_pct_def py_truediv_def nearest_double_def floor_log2_def
  bit_length.simps round_half_even_def times_100_def Let_def

lemmas show_eval = format_1f_def round_half_even_def Let_def show_nat.simps digit_char_def
  show_int_def lines_line_def total_line_def

lemmas report_eval = report_def total_lines_found_def total_lines_hit_def

lemmas main_eval = main_def analyze_lcov_file_def open_file_def

subsection \<open>Facts about the built-ins and the dictionary\<close>

lemma dict_get_set_same: "dict_get (dict_set d k v) k = Some v"
  by (induction d k v rule: dict_set.induct) auto

lemma strip_no_trailing_space: "strip s \<noteq> [] \<Longrightarrow> \<not> isspace (last (strip s))"
proof -
  assume ne: "strip s \<noteq> []"
  let ?t = "dropWhile isspace (rev (dropWhile isspace s))"
  from ne have t: "?t \<noteq> []" by (simp add: strip_def)
  then have "\<not> isspace (hd ?t)" by (rule hd_dropWhile)
  moreover have "last (strip s) = hd ?t" using t by (simp add: strip_def last_rev)
  ultimately show ?thesis by simp
qed


text \<open>The percentages of the runs evaluated below, as doubles.\<close>

lemma pct_5_2: "coverage_pct 5 2 = Inr (Finite 8796093022208000 (- 45))"
  by (simp add: float_eval)

lemma pct_2_4: "coverage_pct 2 4 = Inr (Finite 7036874417766400 (- 47))"
  by (simp add: float_eval)

subsection \<open>What a report that ends normally has printed\<close>

lemma print_files_output:
  "raised (print_files fc ks out) = None \<Longrightarrow>
   stdout (print_files fc ks out) = out @ concat (map (file_block fc) (filter (listed fc) ks))"
proof (induction ks arbitrary: out)
  case Nil
  then show ?case by simp
next
  case (Cons k ks)
  then show ?case
    by (auto simp: listed_def file_block_def split: option.splits sum.splits if_splits)
qed


lemma report_output:
  "raised (report fc) = None \<Longrightarrow>
   stdout (report fc) =
     [''Test Coverage Report'', separator]
     @ concat (map (file_block fc) (filter (listed fc) (sort (map fst fc))))
     @ [separator, closing_line fc]"
proof -
  assume ok: "raised (report fc) = None"
  let ?files = "print_files fc (sort (map fst fc)) [''Test Coverage Report'', separator]"
  from ok have f: "raised ?files = None"
    by (auto simp: report_def Let_def split: option.splits)
  from ok f show ?thesis
    by (auto simp: report_def Let_def closing_line_def print_files_output [OF f]
        split: option.splits sum.splits if_splits)
qed





lemma pct_5_4: "coverage_pct 5 4 = Inr (Finite 8796093022208000 (- 46))"
  by (simp add: float_eval)

subsection \<open>The records of one file block\<close>

text \<open>
  Within a block, that is as long as no \<^verbatim>\<open>SF:\<close> line comes, the current file stays
  the same and each line changes its two counters as its prefix says.
\<close>

lemma prefix_distinct:
  "startswith l ''LF:'' \<Longrightarrow> \<not> startswith l ''SF:'' \<and> \<not> startswith l ''DA:''"
  "startswith l ''LH:'' \<Longrightarrow> \<not> startswith l ''SF:'' \<and> \<not> startswith l ''DA:'' \<and> \<not> startswith l ''LF:''"
  "startswith l ''DA:'' \<Longrightarrow> \<not> startswith l ''SF:''"
  by (auto simp: startswith_def)

lemma process_line_in_block:
  assumes "process_line st l = Inr st1"
    and "\<not> startswith (strip l) ''SF:''"
    and "current_file st = Some p"
    and "dict_get (files_coverage st) p = Some d"
  shows "current_file st1 = Some p \<and>
         (\<exists>d1. dict_get (files_coverage st1) p = Some d1
            \<and> (\<not> startswith (strip l) ''LF:'' \<longrightarrow>
                  lines_found d1 = lines_found d + (if counted_da l then 1 else 0))
            \<and> (\<not> startswith (strip l) ''LH:'' \<longrightarrow>
                  lines_hit d1 = lines_hit d + (if hit_da l then 1 else 0)))"
  using assms
  by (auto simp: process_line_def update_current_def Let_def counted_da_def hit_da_def
      dict_get_set_same startswith_def split: option.splits if_splits)

lemma found_after_block:
  assumes "parse_lines st ls = Inr st'"
    and "\<forall>l \<in> set ls. \<not> startswith (strip l) ''SF:'' \<and> \<not> startswith (strip l) ''LF:''"
    and "current_file st = Some p"
    and "dict_get (files_coverage st) p = Some d"
  shows "\<exists>d'. dict_get (files_coverage st') p = Some d'
            \<and> lines_found d' = lines_found d + int (length (filter counted_da ls))"
  using assms
proof (induction ls arbitrary: st d)
  case Nil
  then show ?case by simp
next
  case (Cons l ls)
  from Cons.prems(1) obtain st1 where s1: "process_line st l = Inr st1"
    and rest: "parse_lines st1 ls = Inr st'"
    by (auto split: sum.splits)
  from Cons.prems(2) have nsf: "\<not> startswith (strip l) ''SF:''" and nlf: "\<not> startswith (strip l) ''LF:''"
    by auto
  from process_line_in_block [OF s1 nsf Cons.prems(3) Cons.prems(4)] nlf
  obtain d1 where c1: "current_file st1 = Some p"
    and g1: "dict_get (files_coverage st1) p = Some d1"
    and f1: "lines_found d1 = lines_found d + (if counted_da l then 1 else 0)"
    by auto
  from Cons.prems(2) have "\<forall>l \<in> set ls. \<not> startswith (strip l) ''SF:'' \<and> \<not> startswith (strip l) ''LF:''"
    by simp
  from Cons.IH [OF rest this c1 g1] f1 show ?case by auto
qed

lemma hit_after_block:
  assumes "parse_lines st ls = Inr st'"
    and "\<forall>l \<in> set ls. \<not> startswith (strip l) ''SF:'' \<and> \<not> startswith (strip l) ''LH:''"
    and "current_file st = Some p"
    and "dict_get (files_coverage st) p = Some d"
  shows "\<exists>d'. dict_get (files_coverage st') p = Some d'
            \<and> lines_hit d' = lines_hit d + int (length (filter hit_da ls))"
  using assms
proof (induction ls arbitrary: st d)
  case Nil
  then show ?case by simp
next
  case (Cons l ls)
  from Cons.prems(1) obtain st1 where s1: "process_line st l = Inr st1"
    and rest: "parse_lines st1 ls = Inr st'"
    by (auto split: sum.splits)
  from Cons.prems(2) have nsf: "\<not> startswith (strip l) ''SF:''" and nlh: "\<not> startswith (strip l) ''LH:''"
    by auto
  from process_line_in_block [OF s1 nsf Cons.prems(3) Cons.prems(4)] nlh
  obtain d1 where c1: "current_file st1 = Some p"
    and g1: "dict_get (files_coverage st1) p = Some d1"
    and f1: "lines_hit d1 = lines_hit d + (if hit_da l then 1 else 0)"
    by auto
  from Cons.prems(2) have "\<forall>l \<in> set ls. \<not> startswith (strip l) ''SF:'' \<and> \<not> startswith (strip l) ''LH:''"
    by simp
  from Cons.IH [OF rest this c1 g1] f1 show ?case by auto
qed

lemma lf_line:
  assumes "current_file st = Some p" "dict_get (files_coverage st) p = Some dat"
    and "startswith (strip raw) ''LF:''" "py_int (drop 3 (strip raw)) = Some n"
  shows "process_line st raw =
     Inr (st\<lparr>files_coverage := dict_set (files_coverage st) p (dat\<lparr>lines_found := n\<rparr>)\<rparr>)"
  using assms prefix_distinct(1) [OF assms(3)]
  by (simp add: process_line_def update_current_def Let_def)

lemma lh_line:
  assumes "current_file st = Some p" "dict_get (files_coverage st) p = Some dat"
    and "startswith (strip raw) ''LH:''" "py_int (drop 3 (strip raw)) = Some n"
  shows "process_line st raw =
     Inr (st\<lparr>files_coverage := dict_set (files_coverage st) p (dat\<lparr>lines_hit := n\<rparr>)\<rparr>)"
  using assms prefix_distinct(2) [OF assms(3)]
  by (simp add: process_line_def update_current_def Let_def)

subsection \<open>Bounds on the rounding to a double\<close>








subsection \<open>The shape of a formatted percentage\<close>





subsection \<open>The value of a formatted percentage\<close>









subsection \<open>A percentage beyond the range of a double\<close>
















subsection \<open>A record before the first \<^verbatim>\<open>SF:\<close> line\<close>

text \<open>
  C1: a \<^verbatim>\<open>DA:\<close>, \<^verbatim>\<open>LF:\<close> or \<^verbatim>\<open>LH:\<close> record before any \<^verbatim>\<open>SF:\<close> record should either
  fail with an error that names the offending line or be skipped. The code does neither:
  \<^verbatim>\<open>current_file\<close> is still \<^verbatim>\<open>None\<close>, the dictionary is read at that key, and the
  \<open>KeyError\<close> for the key \<^verbatim>\<open>None\<close> ends the run before anything is printed.
\<close>

theorem C1_record_before_sf:
  "main (Contents [''DA:1,1'']) = \<lparr>stdout = [], raised = Some (KeyError None)\<rparr>
   \<and> main (Contents [''LF:3'']) = \<lparr>stdout = [], raised = Some (KeyError None)\<rparr>
   \<and> main (Contents [''LH:3'']) = \<lparr>stdout = [], raised = Some (KeyError None)\<rparr>
   \<and> exit_status (main (Contents [''DA:1,1''])) = 1"
  by (simp add: main_eval parse_eval exit_status_def)

subsection \<open>A missing or unreadable input file\<close>

text \<open>
  C2, as the specification states it: with the input file absent or unreadable the run
  ends with a non-zero status, prints no part of the report, and does not end by an
  unhandled exception. The last part fails: the exception that \<^verbatim>\<open>open\<close> raises is
  caught nowhere, so it is what ends the run.
\<close>

theorem C2_absent_file_uncaught:
  "raised (main Absent) = Some (FileNotFoundError ''coverage/lcov.info'')"
  by (simp add: main_def analyze_lcov_file_def open_file_def)

text \<open>
  C2, amended: with the input file absent or unreadable, the exception raised by
  \<^verbatim>\<open>open\<close> (\<open>FileNotFoundError\<close> or \<open>PermissionError\<close>, naming the path) ends the
  run uncaught, the exit status is 1, and nothing of the report has been printed.
\<close>

theorem C2_no_input_file:
  "f = Absent \<or> f = Unreadable \<Longrightarrow>
     stdout (main f) = []
   \<and> exit_status (main f) = 1
   \<and> raised (main f) =
       Some (if f = Absent then FileNotFoundError ''coverage/lcov.info''
             else PermissionError ''coverage/lcov.info'')"
  by (auto simp: main_def analyze_lcov_file_def open_file_def exit_status_def)

theorem C2_no_input_file_witness:
  "stdout (main Unreadable) = []
   \<and> exit_status (main Unreadable) = 1
   \<and> raised (main Unreadable) = Some (PermissionError ''coverage/lcov.info'')"
  using C2_no_input_file [of Unreadable] by simp

subsection \<open>Malformed records\<close>




subsection \<open>\<^verbatim>\<open>LF:\<close> and \<^verbatim>\<open>LH:\<close> records\<close>

text \<open>
  C4, as the specification states it: whatever the order of the records, the last
  \<^verbatim>\<open>LF:\<close> and \<^verbatim>\<open>LH:\<close> values of a file block are the final counts of the file.
  This fails when a \<^verbatim>\<open>DA:\<close> record follows them: it adds to the values they set.
  Here the last values are 10 and 4, the final counts 11 and 5.
\<close>

theorem C4_da_after_lf_adds:
  "parse_lines initial_state [''SF:a.py'', ''DA:1,1'', ''LF:10'', ''LH:4'', ''DA:2,1''] =
     Inr \<lparr>files_coverage = [(''a.py'', \<lparr>lines_found = 11, lines_hit = 5\<rparr>)],
          current_file = Some ''a.py''\<rparr>"
  by (simp add: parse_eval)

text \<open>
  C4, amended: an \<^verbatim>\<open>LF:\<close> record whose field is an integer overwrites the
  \<open>lines_found\<close> of the current file with it, whatever was accumulated before, and an
  \<^verbatim>\<open>LH:\<close> record does the same to \<open>lines_hit\<close>. If the lines that follow, up to
  the next \<^verbatim>\<open>SF:\<close> line or the end of the input, hold no further \<^verbatim>\<open>LF:\<close> record,
  the final \<open>lines_found\<close> is that value plus the number of \<^verbatim>\<open>DA:\<close> records with at
  least two fields among them; likewise the final \<open>lines_hit\<close> is the last \<^verbatim>\<open>LH:\<close>
  value plus the number of such \<^verbatim>\<open>DA:\<close> records with a positive hit count.
\<close>

theorem C4_lf_lh_overwrite:
  assumes "current_file st = Some p" and "dict_get (files_coverage st) p = Some dat"
  shows
    "(startswith (strip raw) ''LF:'' \<and> py_int (drop 3 (strip raw)) = Some n \<longrightarrow>
        process_line st raw =
          Inr (st\<lparr>files_coverage := dict_set (files_coverage st) p (dat\<lparr>lines_found := n\<rparr>)\<rparr>)
        \<and> (parse_lines st (raw # rest) = Inr st'
            \<and> (\<forall>l \<in> set rest. \<not> startswith (strip l) ''SF:'' \<and> \<not> startswith (strip l) ''LF:'')
           \<longrightarrow> (\<exists>dat'. dict_get (files_coverage st') p = Some dat'
                  \<and> lines_found dat' = n + int (length (filter counted_da rest)))))
   \<and> (startswith (strip raw) ''LH:'' \<and> py_int (drop 3 (strip raw)) = Some n \<longrightarrow>
        process_line st raw =
          Inr (st\<lparr>files_coverage := dict_set (files_coverage st) p (dat\<lparr>lines_hit := n\<rparr>)\<rparr>)
        \<and> (parse_lines st (raw # rest) = Inr st'
            \<and> (\<forall>l \<in> set rest. \<not> startswith (strip l) ''SF:'' \<and> \<not> startswith (strip l) ''LH:'')
           \<longrightarrow> (\<exists>dat'. dict_get (files_coverage st') p = Some dat'
                  \<and> lines_hit dat' = n + int (length (filter hit_da rest)))))"
proof (intro conjI impI)
  assume a: "startswith (strip raw) ''LF:'' \<and> py_int (drop 3 (strip raw)) = Some n"
  then show s: "process_line st raw =
      Inr (st\<lparr>files_coverage := dict_set (files_coverage st) p (dat\<lparr>lines_found := n\<rparr>)\<rparr>)"
    using lf_line [OF assms] by blast
  assume b: "parse_lines st (raw # rest) = Inr st'
            \<and> (\<forall>l \<in> set rest. \<not> startswith (strip l) ''SF:'' \<and> \<not> startswith (strip l) ''LF:'')"
  let ?st1 = "st\<lparr>files_coverage := dict_set (files_coverage st) p (dat\<lparr>lines_found := n\<rparr>)\<rparr>"
  from b s have r: "parse_lines ?st1 rest = Inr st'" by simp
  have c: "current_file ?st1 = Some p" using assms(1) by simp
  have g: "dict_get (files_coverage ?st1) p = Some (dat\<lparr>lines_found := n\<rparr>)"
    by (simp add: dict_get_set_same)
  from found_after_block [OF r _ c g] b
  show "\<exists>dat'. dict_get (files_coverage st') p = Some dat'
                  \<and> lines_found dat' = n + int (length (filter counted_da rest))"
    by simp
next
  assume a: "startswith (strip raw) ''LH:'' \<and> py_int (drop 3 (strip raw)) = Some n"
  then show s: "process_line st raw =
      Inr (st\<lparr>files_coverage := dict_set (files_coverage st) p (dat\<lparr>lines_hit := n\<rparr>)\<rparr>)"
    using lh_line [OF assms] by blast
  assume b: "parse_lines st (raw # rest) = Inr st'
            \<and> (\<forall>l \<in> set rest. \<not> startswith (strip l) ''SF:'' \<and> \<not> startswith (strip l) ''LH:'')"
  let ?st1 = "st\<lparr>files_coverage := dict_set (files_coverage st) p (dat\<lparr>lines_hit := n\<rparr>)\<rparr>"
  from b s have r: "parse_lines ?st1 rest = Inr st'" by simp
  have c: "current_file ?st1 = Some p" using assms(1) by simp
  have g: "dict_get (files_coverage ?st1) p = Some (dat\<lparr>lines_hit := n\<rparr>)"
    by (simp add: dict_get_set_same)
  from hit_after_block [OF r _ c g] b
  show "\<exists>dat'. dict_get (files_coverage st') p = Some dat'
                  \<and> lines_hit dat' = n + int (length (filter hit_da rest))"
    by simp
qed

theorem C4_lf_lh_overwrite_witness:
  "process_line
     \<lparr>files_coverage = [(''a.py'', \<lparr>lines_found = 3, lines_hit = 2\<rparr>)], current_file = Some ''a.py''\<rparr>
     ''LF:10'' =
     Inr \<lparr>files_coverage = [(''a.py'', \<lparr>lines_found = 10, lines_hit = 2\<rparr>)],
          current_file = Some ''a.py''\<rparr>
   \<and> (\<exists>dat'. dict_get [(''a.py'', \<lparr>lines_found = 11, lines_hit = 3\<rparr>)] ''a.py'' = Some dat'
          \<and> lines_found dat' = 10 + 1)
   \<and> process_line
     \<lparr>files_coverage = [(''a.py'', \<lparr>lines_found = 3, lines_hit = 2\<rparr>)], current_file = Some ''a.py''\<rparr>
     ''LH:4'' =
     Inr \<lparr>files_coverage = [(''a.py'', \<lparr>lines_found = 3, lines_hit = 4\<rparr>)],
          current_file = Some ''a.py''\<rparr>
   \<and> (\<exists>dat'. dict_get [(''a.py'', \<lparr>lines_found = 4, lines_hit = 5\<rparr>)] ''a.py'' = Some dat'
          \<and> lines_hit dat' = 4 + 1)"
proof -
  let ?st = "\<lparr>files_coverage = [(''a.py'', \<lparr>lines_found = 3, lines_hit = 2\<rparr>)],
              current_file = Some ''a.py''\<rparr>"
  let ?rest = "[''DA:4,1'', ''end_of_record'']"
  have c: "current_file ?st = Some ''a.py''" by simp
  have g: "dict_get (files_coverage ?st) ''a.py'' = Some \<lparr>lines_found = 3, lines_hit = 2\<rparr>"
    by simp
  have pf: "parse_lines ?st (''LF:10'' # ?rest) =
      Inr \<lparr>files_coverage = [(''a.py'', \<lparr>lines_found = 11, lines_hit = 3\<rparr>)],
           current_file = Some ''a.py''\<rparr>"
    by (simp add: parse_eval)
  have ph: "parse_lines ?st (''LH:4'' # ?rest) =
      Inr \<lparr>files_coverage = [(''a.py'', \<lparr>lines_found = 4, lines_hit = 5\<rparr>)],
           current_file = Some ''a.py''\<rparr>"
    by (simp add: parse_eval)
  have r: "\<forall>l \<in> set ?rest. \<not> startswith (strip l) ''SF:'' \<and> \<not> startswith (strip l) ''LF:''
             \<and> \<not> startswith (strip l) ''LH:''"
    by (simp add: strip_def isspace_def startswith_def)
  have n: "filter counted_da ?rest = [''DA:4,1'']" "filter hit_da ?rest = [''DA:4,1'']"
    by (simp_all add: counted_da_def hit_da_def parse_eval)
  have i: "startswith (strip ''LF:10'') ''LF:'' \<and> py_int (drop 3 (strip ''LF:10'')) = Some 10"
    "startswith (strip ''LH:4'') ''LH:'' \<and> py_int (drop 3 (strip ''LH:4'')) = Some 4"
    by (simp_all add: parse_eval)
  from C4_lf_lh_overwrite [OF c g, of "''LF:10''" 10 ?rest
      "\<lparr>files_coverage = [(''a.py'', \<lparr>lines_found = 11, lines_hit = 3\<rparr>)],
        current_file = Some ''a.py''\<rparr>"] i(1) pf r
  have f: "process_line ?st ''LF:10'' =
        Inr (?st\<lparr>files_coverage := dict_set (files_coverage ?st) ''a.py''
                   (\<lparr>lines_found = 3, lines_hit = 2\<rparr>\<lparr>lines_found := 10\<rparr>)\<rparr>)
      \<and> (\<exists>dat'. dict_get [(''a.py'', \<lparr>lines_found = 11, lines_hit = 3\<rparr>)] ''a.py'' = Some dat'
          \<and> lines_found dat' = 10 + int (length (filter counted_da ?rest)))"
    by (simp del: parse_lines.simps)
  from C4_lf_lh_overwrite [OF c g, of "''LH:4''" 4 ?rest
      "\<lparr>files_coverage = [(''a.py'', \<lparr>lines_found = 4, lines_hit = 5\<rparr>)],
        current_file = Some ''a.py''\<rparr>"] i(2) ph r
  have h: "process_line ?st ''LH:4'' =
        Inr (?st\<lparr>files_coverage := dict_set (files_coverage ?st) ''a.py''
                   (\<lparr>lines_found = 3, lines_hit = 2\<rparr>\<lparr>lines_hit := 4\<rparr>)\<rparr>)
      \<and> (\<exists>dat'. dict_get [(''a.py'', \<lparr>lines_found = 4, lines_hit = 5\<rparr>)] ''a.py'' = Some dat'
          \<and> lines_hit dat' = 4 + int (length (filter hit_da ?rest)))"
    by (simp del: parse_lines.simps)
  from f h show ?thesis unfolding n by simp
qed

subsection \<open>\<^verbatim>\<open>DA:\<close> records and the percentage\<close>






subsection \<open>The order of the listing\<close>





subsection \<open>Files with no lines found\<close>

lemma total_lines_found_append:
  "total_lines_found (fc @ [(p, dat)]) = total_lines_found fc + lines_found dat"
  by (simp add: total_lines_found_def)

lemma total_lines_hit_append:
  "total_lines_hit (fc @ [(p, dat)]) = total_lines_hit fc + lines_hit dat"
  by (simp add: total_lines_hit_def)

text \<open>
  C7: a file entry whose \<open>lines_found\<close> is 0 is not listed, and the loop prints
  nothing for it; a report that ends normally consists of the blocks of the listed files
  only. The totals are the sums over all entries, so an entry with no lines found adds
  0 to the lines found and its \<open>lines_hit\<close> to the lines hit. In the run evaluated
  last, \<^verbatim>\<open>z.py\<close> has no lines found and 3 lines hit: it is not listed, and the total
  is 5 of 4.
\<close>

theorem C7_zero_files_omitted_but_counted:
  "(dict_get fc p = Some dat \<and> lines_found dat = 0 \<longrightarrow>
      \<not> listed fc p \<and> print_files fc (p # rest) out = print_files fc rest out)
   \<and> (raised (report fc) = None \<longrightarrow>
        stdout (report fc) =
          [''Test Coverage Report'', separator]
          @ concat (map (file_block fc) (filter (listed fc) (sort (map fst fc))))
          @ [separator, closing_line fc])
   \<and> total_lines_found (fc @ [(q, \<lparr>lines_found = 0, lines_hit = h\<rparr>)]) = total_lines_found fc
   \<and> total_lines_hit (fc @ [(q, \<lparr>lines_found = 0, lines_hit = h\<rparr>)]) = total_lines_hit fc + h
   \<and> total_lines_found fc = sum_list (map (\<lambda>e. lines_found (snd e)) fc)
   \<and> total_lines_hit fc = sum_list (map (\<lambda>e. lines_hit (snd e)) fc)
   \<and> main (Contents [''SF:a.py'', ''LF:4'', ''LH:2'', ''SF:z.py'', ''LH:3'']) =
       \<lparr>stdout = [''Test Coverage Report'', separator, ''a.py'', ''  Lines: 2/4 (50.0%)'',
                  separator, ''Total Coverage: 5/4 lines (125.0%)''],
        raised = None\<rparr>"
proof -
  have "main (Contents [''SF:a.py'', ''LF:4'', ''LH:2'', ''SF:z.py'', ''LH:3'']) =
       \<lparr>stdout = [''Test Coverage Report'', separator, ''a.py'', ''  Lines: 2/4 (50.0%)'',
                  separator, ''Total Coverage: 5/4 lines (125.0%)''],
        raised = None\<rparr>"
    by (simp add: main_eval parse_eval report_eval pct_2_4 pct_5_4 show_eval)
  moreover have "total_lines_found fc = sum_list (map (\<lambda>e. lines_found (snd e)) fc)"
    by (simp add: total_lines_found_def case_prod_unfold)
  moreover have "total_lines_hit fc = sum_list (map (\<lambda>e. lines_hit (snd e)) fc)"
    by (simp add: total_lines_hit_def case_prod_unfold)
  ultimately show ?thesis
    using report_output [of fc]
    by (simp add: listed_def total_lines_found_append total_lines_hit_append)
qed

theorem C7_zero_files_omitted_but_counted_witness:
  "\<not> listed [(''a.py'', \<lparr>lines_found = 4, lines_hit = 2\<rparr>), (''z.py'', \<lparr>lines_found = 0, lines_hit = 3\<rparr>)] ''z.py''
   \<and> print_files [(''a.py'', \<lparr>lines_found = 4, lines_hit = 2\<rparr>), (''z.py'', \<lparr>lines_found = 0, lines_hit = 3\<rparr>)]
        [''z.py''] [] = \<lparr>stdout = [], raised = None\<rparr>
   \<and> stdout (report [(''a.py'', \<lparr>lines_found = 4, lines_hit = 2\<rparr>), (''z.py'', \<lparr>lines_found = 0, lines_hit = 3\<rparr>)]) =
       [''Test Coverage Report'', separator, ''a.py'', ''  Lines: 2/4 (50.0%)'',
        separator, ''Total Coverage: 5/4 lines (125.0%)'']"
proof -
  let ?fc = "[(''a.py'', \<lparr>lines_found = 4, lines_hit = 2\<rparr>), (''z.py'', \<lparr>lines_found = 0, lines_hit = 3\<rparr>)]"
  have r: "report ?fc = \<lparr>stdout = [''Test Coverage Report'', separator, ''a.py'', ''  Lines: 2/4 (50.0%)'',
        separator, ''Total Coverage: 5/4 lines (125.0%)''], raised = None\<rparr>"
    by (simp add: report_eval pct_2_4 pct_5_4 show_eval)
  have g: "dict_get ?fc ''z.py'' = Some \<lparr>lines_found = 0, lines_hit = 3\<rparr>" by simp
  from C7_zero_files_omitted_but_counted [of ?fc "''z.py''" "\<lparr>lines_found = 0, lines_hit = 3\<rparr>" "[]" "[]"] g r
  show ?thesis by simp
qed

subsection \<open>Counts that break \<open>lines_hit \<le> lines_found\<close>\<close>

text \<open>
  C8: the parser does not enforce \<open>lines_hit \<le> lines_found\<close>. For the input
  \<^verbatim>\<open>SF:a.py\<close>, \<^verbatim>\<open>LF:2\<close>, \<^verbatim>\<open>LH:5\<close> the entry of the report has 5 lines hit of 2 found,
  and the run prints that entry with 250.0% and ends without an exception.
\<close>

theorem C8_hit_above_found_passes:
  "parse_lines initial_state [''SF:a.py'', ''LF:2'', ''LH:5''] =
     Inr \<lparr>files_coverage = [(''a.py'', \<lparr>lines_found = 2, lines_hit = 5\<rparr>)],
          current_file = Some ''a.py''\<rparr>
   \<and> main (Contents [''SF:a.py'', ''LF:2'', ''LH:5'']) =
     \<lparr>stdout = [''Test Coverage Report'', separator, ''a.py'', ''  Lines: 5/2 (250.0%)'',
                separator, ''Total Coverage: 5/2 lines (250.0%)''],
      raised = None\<rparr>"
  by (simp add: main_eval parse_eval report_eval pct_5_2 show_eval)

subsection \<open>The \<^verbatim>\<open>SF:\<close> record\<close>

text \<open>
  C9, as the specification states it: the path of an \<^verbatim>\<open>SF:\<close> line is recorded with its
  surrounding whitespace trimmed, so that \<^verbatim>\<open>'SF:  a.py  '\<close> and \<^verbatim>\<open>'SF:a.py'\<close> create
  the same key \<^verbatim>\<open>'a.py'\<close>. This fails: the line is stripped, not the path, so the
  blanks between the prefix and the path stay in the key.
\<close>

theorem C9_inner_whitespace_kept:
  "process_line initial_state ''SF:  a.py  '' =
     Inr \<lparr>files_coverage = [(''  a.py'', \<lparr>lines_found = 0, lines_hit = 0\<rparr>)],
          current_file = Some ''  a.py''\<rparr>
   \<and> process_line initial_state ''SF:a.py'' =
     Inr \<lparr>files_coverage = [(''a.py'', \<lparr>lines_found = 0, lines_hit = 0\<rparr>)],
          current_file = Some ''a.py''\<rparr>"
  by (simp add: parse_eval)

text \<open>
  C9, amended: the whole line is stripped of surrounding whitespace before the prefix
  is matched, and for a stripped line that starts with \<^verbatim>\<open>SF:\<close> the path is everything
  after the prefix. The parser sets \<^verbatim>\<open>current_file\<close> to that path and the entry's two
  counters to 0. Whitespace after the path is therefore gone, whitespace between the
  prefix and the path is part of the key.
\<close>

theorem C9_sf_line:
  "startswith (strip raw) ''SF:'' \<Longrightarrow>
     (\<exists>st'. process_line st raw = Inr st'
        \<and> current_file st' = Some (drop 3 (strip raw))
        \<and> dict_get (files_coverage st') (drop 3 (strip raw)) =
            Some \<lparr>lines_found = 0, lines_hit = 0\<rparr>)
     \<and> (drop 3 (strip raw) \<noteq> [] \<longrightarrow> \<not> isspace (last (drop 3 (strip raw))))"
proof -
  assume sf: "startswith (strip raw) ''SF:''"
  have "process_line st raw =
      Inr \<lparr>files_coverage =
             dict_set (files_coverage st) (drop 3 (strip raw)) \<lparr>lines_found = 0, lines_hit = 0\<rparr>,
           current_file = Some (drop 3 (strip raw))\<rparr>"
    using sf by (simp add: process_line_def Let_def)
  moreover have "drop 3 (strip raw) \<noteq> [] \<longrightarrow> \<not> isspace (last (drop 3 (strip raw)))"
  proof
    assume ne: "drop 3 (strip raw) \<noteq> []"
    then have "strip raw \<noteq> []" by auto
    then have "\<not> isspace (last (strip raw))" by (rule strip_no_trailing_space)
    moreover have "last (drop 3 (strip raw)) = last (strip raw)"
      using ne by (simp add: last_drop)
    ultimately show "\<not> isspace (last (drop 3 (strip raw)))" by simp
  qed
  ultimately show ?thesis by (simp add: dict_get_set_same)
qed

theorem C9_sf_line_witness:
  "(\<exists>st'. process_line initial_state ''  SF:  a.py  '' = Inr st'
        \<and> current_file st' = Some ''  a.py''
        \<and> dict_get (files_coverage st') ''  a.py'' = Some \<lparr>lines_found = 0, lines_hit = 0\<rparr>)
   \<and> \<not> isspace (last ''  a.py'')"
proof -
  have s: "strip ''  SF:  a.py  '' = ''SF:  a.py''" by (simp add: strip_def isspace_def)
  have "startswith (strip ''  SF:  a.py  '') ''SF:''" by (simp add: s startswith_def)
  from C9_sf_line [OF this, of initial_state] show ?thesis by (simp add: s)
qed

subsection \<open>A negative \<^verbatim>\<open>LF:\<close> value\<close>


end
